theory Spec2Isabelle
  imports Main "HOL-Library.Sublist"
begin

section \<open>Data model\<close>

text \<open>
  \<open>RunConfig\<close> (schemas/config.py) is consumed as an already validated object. The code
  reads \<open>engine.provider\<close>, \<open>engine.model_dump()\<close> and \<open>models[i].name\<close>; the
  provider-specific settings of the engine are kept as a list of key/value pairs.
\<close>

record engine_config =
  provider :: string
  settings :: "(string \<times> string) list"

record model_desc =
  name :: string

record run_config =
  engine :: engine_config
  models :: "model_desc list"

text \<open>
  A service definition is the dictionary returned by
  \<open>BaseEngine.get_docker_service_config\<close>. Its keys are optional (\<open>None\<close>: the key is
  absent); the generator only inspects \<open>volumes\<close>, a list of strings in the
  \<open>source:target\<close> short syntax.
\<close>

record service_def =
  image_name :: "string option"
  ports :: "string list option"
  volumes :: "string list option"
  command :: "string list option"
  environment :: "(string \<times> string) list option"

text \<open>
  \<open>compose_dict\<close> of \<open>DockerComposeGenerator.generate\<close>. The top-level \<open>volumes\<close>
  dictionary maps every key to the empty dictionary, so only its keys are kept, in
  insertion order.
\<close>

record compose_dict =
  compose_version :: string
  compose_services :: "(string \<times> service_def) list"
  compose_volumes :: "string list"

text \<open>
  Code of the repository and of third-party libraries that the generator calls: the two
  engine adapters (\<open>OllamaEngine(conf).get_docker_service_config()\<close>,
  \<open>VLLMEngine(conf).get_docker_service_config()\<close>) and \<open>yaml.dump\<close>. The adapters are
  constructed from the engine configuration alone (\<open>BaseEngine.__init__\<close>).
\<close>

record deps =
  OllamaEngine :: "engine_config \<Rightarrow> service_def"
  VLLMEngine :: "engine_config \<Rightarrow> service_def"
  yaml_dump :: "compose_dict \<Rightarrow> string"

datatype req_error =
    ConnectionError
  | ConnectTimeout
  | ReadTimeout
  | TooManyRedirects
  | HTTPError nat

datatype exc =
    AttributeError string
  | ValueError string
  | OSError string
  | FileNotFoundError string
  | RuntimeError string
  | TimeoutError string
  | CalledProcessError "string list" int
  | RequestException req_error

section \<open>Manifest generator (runtime/deploy/generators.py)\<close>

text \<open>\<open>s.split(sep)\<close> for a one-character separator: never the empty list.\<close>

fun split_on :: "char \<Rightarrow> string \<Rightarrow> string list" where
  "split_on c [] = [[]]"
| "split_on c (x # xs) =
     (if x = c then [] # split_on c xs
      else (case split_on c xs of
              [] \<Rightarrow> [[x]]
            | w # ws \<Rightarrow> (x # w) # ws))"

text \<open>\<open>vol.split(":")[0]\<close>.\<close>

definition vol_name_of :: "string \<Rightarrow> string" where
  "vol_name_of vol = (case split_on CHR '':'' vol of [] \<Rightarrow> [] | w # _ \<Rightarrow> w)"

text \<open>\<open>d[k] = {}\<close> on the keys of an insertion-ordered dictionary.\<close>

definition dict_set :: "string list \<Rightarrow> string \<Rightarrow> string list" where
  "dict_set ks k = (if k \<in> set ks then ks else ks @ [k])"

text \<open>One iteration of the loop over \<open>service_def["volumes"]\<close>.\<close>

definition add_volume :: "string list \<Rightarrow> string \<Rightarrow> string list" where
  "add_volume ks vol =
     (let vol_name = vol_name_of vol in
      if CHR ''/'' \<notin> set vol_name \<and> CHR ''~'' \<notin> set vol_name
      then dict_set ks vol_name else ks)"

text \<open>Step 2 of \<open>generate\<close>: the compose structure and its named volumes.\<close>

definition build_compose :: "string \<Rightarrow> service_def \<Rightarrow> compose_dict" where
  "build_compose service_name sd =
     \<lparr>compose_version = ''3.8'',
      compose_services = [(service_name, sd)],
      compose_volumes =
        (case volumes sd of
           None \<Rightarrow> []
         | Some vs \<Rightarrow> foldl add_volume [] vs)\<rparr>"

text \<open>Step 1 of \<open>generate\<close>: the engine is selected by the provider string.\<close>

definition select_engine :: "deps \<Rightarrow> run_config \<Rightarrow> exc + (string \<times> service_def)" where
  "select_engine lib rc =
     (let p = provider (engine rc); engine_conf = engine rc in
      if p = ''ollama'' then Inr (''ollama'', OllamaEngine lib engine_conf)
      else if p = ''vllm'' then Inr (''vllm'', VLLMEngine lib engine_conf)
      else Inl (ValueError (''Unsupported provider: '' @ p)))"

definition compose_of :: "deps \<Rightarrow> run_config \<Rightarrow> exc + compose_dict" where
  "compose_of lib rc =
     (case select_engine lib rc of
        Inl e \<Rightarrow> Inl e
      | Inr (service_name, sd) \<Rightarrow> Inr (build_compose service_name sd))"

definition generate :: "deps \<Rightarrow> run_config \<Rightarrow> exc + string" where
  "generate lib rc =
     (case compose_of lib rc of
        Inl e \<Rightarrow> Inl e
      | Inr compose \<Rightarrow> Inr (yaml_dump lib compose))"

section \<open>Lifecycle manager (runtime/manager.py)\<close>

subsection \<open>The world outside the process\<close>

text \<open>
  Every effect of the manager is an event appended to a trace: a logging call with its
  level and formatted message, a subprocess invocation, an HTTP request (each with what
  it returned or raised) and a sleep. The file system maps a path to the text stored
  there, and \<open>now\<close> is the reading of \<open>time.time()\<close>, in seconds.
\<close>

datatype level = Info | Warning | Error

datatype proc_result = Exited int | SpawnFailed exc

datatype get_result = Responded | GetRaised req_error

datatype post_result = Response nat | PostRaised req_error

datatype event =
    Log level string
  | ProcRun "string list" proc_result
  | HttpGet string get_result
  | HttpPost string string post_result
  | Sleep nat

record world =
  files :: "string \<rightharpoonup> string"
  trace :: "event list"
  now :: int

text \<open>
  What the outside answers, as a function of the events so far: whether
  \<open>open(path, "w")\<close> fails, the outcome of \<open>subprocess.run\<close>, the outcome and the
  duration in seconds of \<open>requests.get\<close>, the outcome of \<open>requests.post\<close> with the
  model name of its JSON payload, and \<open>str(e)\<close> of an exception.
\<close>

record env =
  open_fails :: "string \<Rightarrow> bool"
  proc_run :: "event list \<Rightarrow> string list \<Rightarrow> proc_result"
  http_get :: "event list \<Rightarrow> string \<Rightarrow> get_result \<times> nat"
  http_post :: "event list \<Rightarrow> string \<Rightarrow> string \<Rightarrow> post_result"
  str_exc :: "exc \<Rightarrow> string"

definition emit :: "event \<Rightarrow> world \<Rightarrow> world" where
  "emit ev w = w\<lparr>trace := trace w @ [ev]\<rparr>"

definition logger :: "level \<Rightarrow> string \<Rightarrow> world \<Rightarrow> world" where
  "logger lv msg w = emit (Log lv msg) w"

subsection \<open>RuntimeManager\<close>

text \<open>
  The attributes of a \<open>RuntimeManager\<close> object. \<open>__init__\<close> sets \<open>config\<close> and
  \<open>compose_file\<close>; \<open>generate_deployment\<close> reads an attribute \<open>run_config\<close> that no
  method of the class sets, so that attribute is optional here (\<open>None\<close>: reading it
  raises \<open>AttributeError\<close>).
\<close>

record manager =
  config :: run_config
  compose_file :: string
  run_config_attr :: "run_config option"

definition RuntimeManager_init :: "run_config \<Rightarrow> manager" where
  "RuntimeManager_init cfg =
     \<lparr>config = cfg, compose_file = ''docker-compose.yml'', run_config_attr = None\<rparr>"

definition generate_deployment ::
  "deps \<Rightarrow> env \<Rightarrow> manager \<Rightarrow> world \<Rightarrow> string \<Rightarrow> (exc + unit) \<times> manager \<times> world" where
  "generate_deployment lib ev m w output_path =
     (let m1 = m\<lparr>compose_file := output_path\<rparr> in
      case run_config_attr m1 of
        None \<Rightarrow>
          (Inl (AttributeError ''run_config''), m1, w)
      | Some rc \<Rightarrow>
          (case generate lib rc of
             Inl e \<Rightarrow> (Inl e, m1, w)
           | Inr yaml_content \<Rightarrow>
               if open_fails ev output_path then (Inl (OSError output_path), m1, w)
               else (Inr (), m1,
                     logger Info (''Deployment generated at '' @ output_path)
                       (w\<lparr>files := (files w)(output_path \<mapsto> yaml_content)\<rparr>))))"

text \<open>\<open>resp.raise_for_status()\<close>: a 4xx or 5xx status raises \<open>HTTPError\<close>.\<close>

definition raise_for_status :: "nat \<Rightarrow> req_error option" where
  "raise_for_status status =
     (if 400 \<le> status \<and> status < 600 then Some (HTTPError status) else None)"

text \<open>
  What the \<open>try\<close> block of \<open>_pull_ollama_model\<close> raises, if anything: every exception
  of \<open>requests.post\<close> and of \<open>raise_for_status\<close> is a \<open>RequestException\<close>. The
  JSON payload of the request is the model name with \<open>stream\<close> set to false; the event
  keeps the name.
\<close>

definition post_error :: "post_result \<Rightarrow> req_error option" where
  "post_error r = (case r of PostRaised e \<Rightarrow> Some e | Response status \<Rightarrow> raise_for_status status)"

definition pull_ollama_model :: "env \<Rightarrow> string \<Rightarrow> world \<Rightarrow> (exc + unit) \<times> world" where
  "pull_ollama_model ev model_name w =
     (let base_url = ''http://localhost:11434'';
          w1 = logger Info (''Requesting Ollama to pull '' @ [CHR 0x27] @ model_name @ [CHR 0x27]
                            @ '' (this may take a while)...'') w;
          url = base_url @ ''/api/pull'';
          r = http_post ev (trace w1) url model_name;
          w2 = emit (HttpPost url model_name r) w1
      in case post_error r of
           None \<Rightarrow> (Inr (), logger Info (''Successfully pulled '' @ model_name @ ''.'') w2)
         | Some e \<Rightarrow>
             (Inl (RequestException e),
              logger Error (''Failed to pull model '' @ model_name @ '': ''
                            @ str_exc ev (RequestException e)) w2))"

text \<open>The loop of \<open>execute_models\<close>; an exception leaves it.\<close>

fun execute_loop :: "env \<Rightarrow> string \<Rightarrow> model_desc list \<Rightarrow> world \<Rightarrow> (exc + unit) \<times> world" where
  "execute_loop ev p [] w = (Inr (), w)"
| "execute_loop ev p (model # rest) w =
     (let w1 = logger Info (''Initializing model: '' @ name model @ ''...'') w in
      if p = ''ollama'' then
        (case pull_ollama_model ev (name model) w1 of
           (Inl e, w2) \<Rightarrow> (Inl e, w2)
         | (Inr u, w2) \<Rightarrow> execute_loop ev p rest w2)
      else if p = ''vllm'' then
        execute_loop ev p rest
          (logger Info (''vLLM engine should be loading '' @ name model @ '' automatically.'') w1)
      else
        execute_loop ev p rest
          (logger Warning (''No specific initialization logic for provider: '' @ p) w1))"

definition execute_models :: "env \<Rightarrow> manager \<Rightarrow> world \<Rightarrow> (exc + unit) \<times> world" where
  "execute_models ev m w =
     execute_loop ev (provider (engine (config m))) (models (config m)) w"

text \<open>\<open>except requests.ConnectionError\<close>: the class and its subclass \<open>ConnectTimeout\<close>.\<close>

fun is_ConnectionError :: "req_error \<Rightarrow> bool" where
  "is_ConnectionError ConnectionError = True"
| "is_ConnectionError ConnectTimeout = True"
| "is_ConnectionError _ = False"

text \<open>
  The \<open>while\<close> loop of \<open>_wait_for_health\<close>. The clock advances by the duration of each
  probe and by the two seconds of \<open>time.sleep(2)\<close>.
\<close>

function poll :: "env \<Rightarrow> string \<Rightarrow> int \<Rightarrow> int \<Rightarrow> world \<Rightarrow> (exc + unit) \<times> world" where
  "poll ev url start_time timeout w =
     (if now w - start_time < timeout then
        (case http_get ev (trace w) url of
           (r, d) \<Rightarrow>
             (let w1 = (emit (HttpGet url r) w)\<lparr>now := now w + int d\<rparr> in
              case r of
                Responded \<Rightarrow> (Inr (), logger Info ''Engine is responsive.'' w1)
              | GetRaised e \<Rightarrow>
                  if is_ConnectionError e then
                    poll ev url start_time timeout
                      ((emit (Sleep 2) w1)\<lparr>now := now w1 + 2\<rparr>)
                  else (Inl (RequestException e), w1)))
      else (Inl (TimeoutError ''Engine failed to become responsive within timeout.''), w))"
  by pat_completeness auto
termination
  by (relation "measure (\<lambda>(ev, url, start_time, timeout, w). nat (timeout - (now w - start_time)))")
     (auto simp: emit_def)

definition wait_for_health :: "env \<Rightarrow> manager \<Rightarrow> world \<Rightarrow> int \<Rightarrow> (exc + unit) \<times> world" where
  "wait_for_health ev m w timeout =
     (let start_time = now w;
          port = (if provider (engine (config m)) = ''ollama'' then ''11434'' else ''8000'');
          url = ''http://localhost:'' @ port;
          w1 = logger Info (''Waiting for engine at '' @ url @ ''...'') w
      in poll ev url start_time timeout w1)"

definition start_environment :: "env \<Rightarrow> manager \<Rightarrow> world \<Rightarrow> (exc + unit) \<times> world" where
  "start_environment ev m w =
     (if compose_file m \<notin> dom (files w) then
        (Inl (FileNotFoundError (''Compose file '' @ compose_file m
                @ '' not found. Run generate_deployment() first.'')), w)
      else
        (let w1 = logger Info ''Starting Docker containers...'' w;
             cmd = [''docker-compose'', ''-f'', compose_file m, ''up'', ''-d''];
             r = proc_run ev (trace w1) cmd;
             w2 = emit (ProcRun cmd r) w1
         in case r of
              SpawnFailed e \<Rightarrow> (Inl e, w2)
            | Exited rc \<Rightarrow>
                if rc \<noteq> 0 then
                  (Inl (RuntimeError ''Docker Compose failed to start.''),
                   logger Error (''Failed to start environment: ''
                                 @ str_exc ev (CalledProcessError cmd rc)) w2)
                else
                  (case wait_for_health ev m (logger Info ''Containers started successfully.'' w2) 60 of
                     (Inl e, w3) \<Rightarrow> (Inl e, w3)
                   | (Inr u, w3) \<Rightarrow> execute_models ev m w3)))"

definition stop_environment :: "env \<Rightarrow> manager \<Rightarrow> world \<Rightarrow> (exc + unit) \<times> world" where
  "stop_environment ev m w =
     (let w1 = logger Info ''Stopping Docker containers...'' w;
          cmd = [''docker-compose'', ''-f'', compose_file m, ''down''];
          r = proc_run ev (trace w1) cmd;
          w2 = emit (ProcRun cmd r) w1
      in case r of
           SpawnFailed e \<Rightarrow> (Inl e, w2)
         | Exited rc \<Rightarrow> (Inr (), w2))"

section \<open>Observations\<close>

text \<open>
  What a trace shows: the model pulls requested, with their outcomes, the readiness
  probes and the subprocess invocations.
\<close>

fun pull_of :: "event \<Rightarrow> (string \<times> post_result) list" where
  "pull_of (HttpPost url model r) = [(model, r)]"
| "pull_of _ = []"

definition pulls :: "event list \<Rightarrow> (string \<times> post_result) list" where
  "pulls tr = concat (map pull_of tr)"

fun is_probe :: "event \<Rightarrow> bool" where
  "is_probe (HttpGet url r) = True"
| "is_probe _ = False"

fun is_proc_run :: "event \<Rightarrow> bool" where
  "is_proc_run (ProcRun cmd r) = True"
| "is_proc_run _ = False"



text \<open>
  The strings of a service definition; \<open>mentions sd n\<close>: the name \<open>n\<close> occurs inside
  one of them; \<open>unmentioned_name sd\<close>: a name longer than each of them.
\<close>

definition sd_strings :: "service_def \<Rightarrow> string list" where
  "sd_strings sd =
     (case image_name sd of None \<Rightarrow> [] | Some s \<Rightarrow> [s])
     @ (case ports sd of None \<Rightarrow> [] | Some ps \<Rightarrow> ps)
     @ (case volumes sd of None \<Rightarrow> [] | Some vs \<Rightarrow> vs)
     @ (case command sd of None \<Rightarrow> [] | Some cs \<Rightarrow> cs)
     @ (case environment sd of None \<Rightarrow> [] | Some kvs \<Rightarrow> concat (map (\<lambda>(k, v). [k, v]) kvs))"

definition mentions :: "service_def \<Rightarrow> string \<Rightarrow> bool" where
  "mentions sd n = (\<exists>s\<in>set (sd_strings sd). sublist n s)"

definition unmentioned_name :: "service_def \<Rightarrow> string" where
  "unmentioned_name sd = CHR ''m'' # concat (sd_strings sd)"

section \<open>Sample inputs\<close>

text \<open>Concrete configurations, adapters and environments on which the results below are evaluated.\<close>

definition sample_config :: run_config where
  "sample_config =
     \<lparr>engine = \<lparr>provider = ''ollama'', settings = []\<rparr>,
      models = [\<lparr>name = ''llama3''\<rparr>, \<lparr>name = ''phi3''\<rparr>]\<rparr>"

definition unknown_config :: run_config where
  "unknown_config =
     \<lparr>engine = \<lparr>provider = ''tgi'', settings = []\<rparr>,
      models = [\<lparr>name = ''llama3''\<rparr>, \<lparr>name = ''phi3''\<rparr>]\<rparr>"

definition vllm_config :: run_config where
  "vllm_config =
     \<lparr>engine = \<lparr>provider = ''vllm'', settings = [(''gpu_memory_utilization'', ''0.9'')]\<rparr>,
      models = [\<lparr>name = ''facebook/opt-125m''\<rparr>]\<rparr>"

definition sample_service :: service_def where
  "sample_service =
     \<lparr>image_name = Some ''ollama/ollama'', ports = Some [''11434:11434''],
      volumes = Some [''data:/var/lib/x'', ''/host/path:/var/lib/x'', ''~/path:/var/lib/x''],
      command = None, environment = None\<rparr>"

definition sample_deps :: deps where
  "sample_deps =
     \<lparr>OllamaEngine = (\<lambda>conf. sample_service),
      VLLMEngine = (\<lambda>conf. sample_service\<lparr>command := Some (map snd (settings conf))\<rparr>),
      yaml_dump = (\<lambda>compose. compose_version compose)\<rparr>"

text \<open>A manifest text that lists the version, the service names and the named volumes.\<close>

definition listing_dump :: "compose_dict \<Rightarrow> string" where
  "listing_dump compose =
     ''version: '' @ compose_version compose
     @ concat (map (\<lambda>(service_name, sd). '' service: '' @ service_name) (compose_services compose))
     @ concat (map (\<lambda>v. '' volume: '' @ v) (compose_volumes compose))"

definition listing_deps :: deps where
  "listing_deps = sample_deps\<lparr>yaml_dump := listing_dump\<rparr>"

definition failing_env :: env where
  "failing_env =
     \<lparr>open_fails = (\<lambda>path. False),
      proc_run = (\<lambda>tr cmd. Exited 1),
      http_get = (\<lambda>tr url. (GetRaised ReadTimeout, 1)),
      http_post = (\<lambda>tr url model. if model = ''phi3'' then Response 404 else Response 200),
      str_exc = (\<lambda>e. [])\<rparr>"

definition healthy_env :: env where
  "healthy_env =
     \<lparr>open_fails = (\<lambda>path. False),
      proc_run = (\<lambda>tr cmd. Exited 0),
      http_get = (\<lambda>tr url. (Responded, 0)),
      http_post = (\<lambda>tr url model. Response 200),
      str_exc = (\<lambda>e. [])\<rparr>"


definition empty_world :: world where
  "empty_world = \<lparr>files = Map.empty, trace = [], now = 0\<rparr>"

definition stale_world :: world where
  "stale_world = \<lparr>files = [''docker-compose.yml'' \<mapsto> ''version: 3.8''], trace = [], now = 0\<rparr>"

declare poll.simps [simp del]

section \<open>The manifest generator\<close>

lemma split_on_nonempty: "split_on c s \<noteq> []"
  by (induction s) (auto split: list.splits)

lemma split_on_head: "split_on c s = takeWhile (\<lambda>x. x \<noteq> c) s # tl (split_on c s)"
  by (induction s) (auto split: list.splits)

lemma vol_name_of_takeWhile: "vol_name_of vol = takeWhile (\<lambda>x. x \<noteq> CHR '':'') vol"
  unfolding vol_name_of_def by (subst split_on_head) simp

lemma set_dict_set: "set (dict_set ks k) = insert k (set ks)"
  by (auto simp: dict_set_def)

lemma set_add_volume:
  "set (add_volume ks vol) =
     (if CHR ''/'' \<notin> set (vol_name_of vol) \<and> CHR ''~'' \<notin> set (vol_name_of vol)
      then insert (vol_name_of vol) (set ks) else set ks)"
  by (simp add: add_volume_def Let_def set_dict_set)

lemma set_foldl_add_volume:
  "set (foldl add_volume ks vs) =
     set ks \<union> {n. \<exists>vol\<in>set vs. vol_name_of vol = n \<and> CHR ''/'' \<notin> set n \<and> CHR ''~'' \<notin> set n}"
proof (induction vs arbitrary: ks)
  case Nil
  show ?case by simp
next
  case (Cons v vs)
  show ?case
    unfolding foldl_Cons Cons.IH set_add_volume by auto
qed

lemma build_compose_volumes:
  "(volumes sd = Some vs \<longrightarrow>
      (\<forall>vol\<in>set vs.
         vol_name_of vol = takeWhile (\<lambda>x. x \<noteq> CHR '':'') vol \<and>
         (vol_name_of vol \<in> set (compose_volumes (build_compose s sd)) \<longleftrightarrow>
            CHR ''/'' \<notin> set (vol_name_of vol) \<and> CHR ''~'' \<notin> set (vol_name_of vol))) \<and>
      set (compose_volumes (build_compose s sd)) \<subseteq> vol_name_of ` set vs) \<and>
   (volumes sd = None \<longrightarrow> compose_volumes (build_compose s sd) = []) \<and>
   (volumes sd = Some [''data:/var/lib/x''] \<longrightarrow>
      compose_volumes (build_compose s sd) = [''data'']) \<and>
   (volumes sd = Some [''/host/path:/var/lib/x''] \<longrightarrow>
      compose_volumes (build_compose s sd) = []) \<and>
   (volumes sd = Some [''~/path:/var/lib/x''] \<longrightarrow>
      compose_volumes (build_compose s sd) = [])"
proof -
  have ex: "vol_name_of ''data:/var/lib/x'' = ''data''"
    "vol_name_of ''/host/path:/var/lib/x'' = ''/host/path''"
    "vol_name_of ''~/path:/var/lib/x'' = ''~/path''"
    by (simp_all add: vol_name_of_def)
  have gen: "volumes sd = Some vs \<Longrightarrow>
      set (compose_volumes (build_compose s sd)) =
        {n. \<exists>vol\<in>set vs. vol_name_of vol = n \<and> CHR ''/'' \<notin> set n \<and> CHR ''~'' \<notin> set n}"
    by (simp add: build_compose_def set_foldl_add_volume)
  show ?thesis
    apply (intro conjI impI ballI)
    subgoal by (rule vol_name_of_takeWhile)
    subgoal using gen by auto
    subgoal using gen by auto
    subgoal by (simp add: build_compose_def)
    subgoal by (simp add: build_compose_def add_volume_def dict_set_def ex)
    subgoal by (simp add: build_compose_def add_volume_def dict_set_def ex)
    subgoal by (simp add: build_compose_def add_volume_def dict_set_def ex)
    done
qed

text \<open>
  C8. For a supported provider the generator builds exactly one compose structure, whose
  single service is the adapter's service definition and whose text it returns. For every
  volume declaration of that service definition, the declaration's left-hand side (the
  text before the first colon) is registered as a top-level named volume of the compose
  structure if and only if it contains neither \<open>/\<close> nor \<open>~\<close>, and nothing else is
  registered; without a \<open>volumes\<close> key nothing is registered. In particular
  \<open>data:/var/lib/x\<close> registers \<open>data\<close>, while \<open>/host/path:/var/lib/x\<close> and
  \<open>~/path:/var/lib/x\<close> register nothing.
\<close>

theorem generator_registers_named_volumes:
  assumes "provider (engine rc) = ''ollama'' \<or> provider (engine rc) = ''vllm''"
  shows "\<exists>sd c.
           sd = (if provider (engine rc) = ''ollama'' then OllamaEngine lib (engine rc)
                 else VLLMEngine lib (engine rc)) \<and>
           compose_of lib rc = Inr c \<and>
           generate lib rc = Inr (yaml_dump lib c) \<and>
           compose_version c = ''3.8'' \<and>
           compose_services c = [(provider (engine rc), sd)] \<and>
           (\<forall>vs. volumes sd = Some vs \<longrightarrow>
              (\<forall>vol\<in>set vs.
                 vol_name_of vol = takeWhile (\<lambda>x. x \<noteq> CHR '':'') vol \<and>
                 (vol_name_of vol \<in> set (compose_volumes c) \<longleftrightarrow>
                    CHR ''/'' \<notin> set (vol_name_of vol) \<and> CHR ''~'' \<notin> set (vol_name_of vol))) \<and>
              set (compose_volumes c) \<subseteq> vol_name_of ` set vs) \<and>
           (volumes sd = None \<longrightarrow> compose_volumes c = []) \<and>
           (volumes sd = Some [''data:/var/lib/x''] \<longrightarrow> compose_volumes c = [''data'']) \<and>
           (volumes sd = Some [''/host/path:/var/lib/x''] \<longrightarrow> compose_volumes c = []) \<and>
           (volumes sd = Some [''~/path:/var/lib/x''] \<longrightarrow> compose_volumes c = [])"
proof -
  let ?p = "provider (engine rc)"
  let ?sd = "if ?p = ''ollama'' then OllamaEngine lib (engine rc) else VLLMEngine lib (engine rc)"
  let ?c = "build_compose ?p ?sd"
  from assms have sel: "select_engine lib rc = Inr (?p, ?sd)"
    by (auto simp: select_engine_def)
  then have c: "compose_of lib rc = Inr ?c"
    by (simp add: compose_of_def)
  then have g: "generate lib rc = Inr (yaml_dump lib ?c)"
    by (simp add: generate_def)
  have v: "compose_version ?c = ''3.8''" and s: "compose_services ?c = [(?p, ?sd)]"
    by (simp_all add: build_compose_def)
  have b: "(volumes ?sd = Some vs \<longrightarrow>
      (\<forall>vol\<in>set vs.
         vol_name_of vol = takeWhile (\<lambda>x. x \<noteq> CHR '':'') vol \<and>
         (vol_name_of vol \<in> set (compose_volumes ?c) \<longleftrightarrow>
            CHR ''/'' \<notin> set (vol_name_of vol) \<and> CHR ''~'' \<notin> set (vol_name_of vol))) \<and>
      set (compose_volumes ?c) \<subseteq> vol_name_of ` set vs) \<and>
   (volumes ?sd = None \<longrightarrow> compose_volumes ?c = []) \<and>
   (volumes ?sd = Some [''data:/var/lib/x''] \<longrightarrow> compose_volumes ?c = [''data'']) \<and>
   (volumes ?sd = Some [''/host/path:/var/lib/x''] \<longrightarrow> compose_volumes ?c = []) \<and>
   (volumes ?sd = Some [''~/path:/var/lib/x''] \<longrightarrow> compose_volumes ?c = [])" for vs
    by (rule build_compose_volumes)
  note b1 = b [THEN conjunct1]
    and b2 = b [THEN conjunct2, THEN conjunct1]
    and b3 = b [THEN conjunct2, THEN conjunct2, THEN conjunct1]
    and b4 = b [THEN conjunct2, THEN conjunct2, THEN conjunct2, THEN conjunct1]
    and b5 = b [THEN conjunct2, THEN conjunct2, THEN conjunct2, THEN conjunct2]
  show ?thesis
    by (rule exI [of _ ?sd], rule exI [of _ ?c])
       (intro conjI allI refl c g v s b1 b2 b3 b4 b5)
qed

theorem generator_registers_named_volumes_witness:
  "provider (engine sample_config) = ''ollama'' \<and>
   compose_of listing_deps sample_config =
     Inr \<lparr>compose_version = ''3.8'', compose_services = [(''ollama'', sample_service)],
          compose_volumes = [''data'']\<rparr> \<and>
   generate listing_deps sample_config = Inr ''version: 3.8 service: ollama volume: data'' \<and>
   (\<exists>c. compose_of listing_deps sample_config = Inr c \<and>
        generate listing_deps sample_config = Inr (listing_dump c) \<and>
        compose_services c = [(''ollama'', sample_service)] \<and>
        ''data'' \<in> set (compose_volumes c) \<and>
        ''/host/path'' \<notin> set (compose_volumes c) \<and>
        ''~/path'' \<notin> set (compose_volumes c))"
proof -
  have h: "provider (engine sample_config) = ''ollama''"
    by (simp add: sample_config_def)
  have sd: "OllamaEngine listing_deps (engine sample_config) = sample_service"
    by (simp add: listing_deps_def sample_deps_def)
  have dump: "yaml_dump listing_deps = listing_dump"
    by (simp add: listing_deps_def)
  have vs: "volumes sample_service =
     Some [''data:/var/lib/x'', ''/host/path:/var/lib/x'', ''~/path:/var/lib/x'']"
    by (simp add: sample_service_def)
  have v: "vol_name_of ''data:/var/lib/x'' = ''data''"
    "vol_name_of ''/host/path:/var/lib/x'' = ''/host/path''"
    "vol_name_of ''~/path:/var/lib/x'' = ''~/path''"
    by (simp_all add: vol_name_of_def)
  from generator_registers_named_volumes [OF disjI1 [OF h], of listing_deps]
  obtain c where c: "compose_of listing_deps sample_config = Inr c"
    and g: "generate listing_deps sample_config = Inr (listing_dump c)"
    and s: "compose_services c = [(''ollama'', sample_service)]"
    and reg: "\<forall>vol\<in>set [''data:/var/lib/x'', ''/host/path:/var/lib/x'', ''~/path:/var/lib/x''].
                vol_name_of vol \<in> set (compose_volumes c) \<longleftrightarrow>
                  CHR ''/'' \<notin> set (vol_name_of vol) \<and> CHR ''~'' \<notin> set (vol_name_of vol)"
    unfolding h sd dump using vs by auto
  from reg have "''data'' \<in> set (compose_volumes c)"
    and "''/host/path'' \<notin> set (compose_volumes c)"
    and "''~/path'' \<notin> set (compose_volumes c)"
    by (simp_all add: v)
  with c g s have ex: "\<exists>c. compose_of listing_deps sample_config = Inr c \<and>
        generate listing_deps sample_config = Inr (listing_dump c) \<and>
        compose_services c = [(''ollama'', sample_service)] \<and>
        ''data'' \<in> set (compose_volumes c) \<and>
        ''/host/path'' \<notin> set (compose_volumes c) \<and>
        ''~/path'' \<notin> set (compose_volumes c)"
    by blast
  have c': "compose_of listing_deps sample_config =
     Inr \<lparr>compose_version = ''3.8'', compose_services = [(''ollama'', sample_service)],
          compose_volumes = [''data'']\<rparr>"
    by (simp add: compose_of_def select_engine_def h sd build_compose_def vs add_volume_def
          dict_set_def v)
  have g': "generate listing_deps sample_config = Inr ''version: 3.8 service: ollama volume: data''"
    by (simp add: generate_def c' dump listing_dump_def)
  show ?thesis
    by (intro conjI h c' g' ex)
qed

lemma length_le_concat: "s \<in> set xs \<Longrightarrow> length s \<le> length (concat xs)"
  by (induction xs) auto

lemma unmentioned_name_not_mentioned: "\<not> mentions sd (unmentioned_name sd)"
proof
  assume "mentions sd (unmentioned_name sd)"
  then obtain s where s: "s \<in> set (sd_strings sd)" and sub: "sublist (unmentioned_name sd) s"
    by (auto simp: mentions_def)
  from sub have "length (unmentioned_name sd) \<le> length s"
    by (rule sublist_length_le)
  moreover from s have "length s \<le> length (concat (sd_strings sd))"
    by (rule length_le_concat)
  ultimately show False
    by (simp add: unmentioned_name_def)
qed

text \<open>
  C2. The claim is that for the \<open>vllm\<close> provider every model name of
  \<open>RunConfig.models\<close> appears in the generated service definition. The generator hands
  the adapter \<open>run_config.engine.model_dump()\<close> and nothing else, so whatever the adapter
  does, the service definition, the compose structure and the manifest text do not depend
  on \<open>models\<close>; and there is a model name (longer than every string of the service
  definition) that the service definition does not contain.
\<close>

theorem vllm_service_ignores_models:
  assumes "provider (engine rc) = ''vllm''"
  shows "select_engine lib (rc\<lparr>models := ms\<rparr>) = Inr (''vllm'', VLLMEngine lib (engine rc)) \<and>
         compose_of lib (rc\<lparr>models := ms\<rparr>) = compose_of lib rc \<and>
         generate lib (rc\<lparr>models := ms\<rparr>) = generate lib rc \<and>
         \<not> mentions (VLLMEngine lib (engine rc)) (unmentioned_name (VLLMEngine lib (engine rc)))"
  using assms unmentioned_name_not_mentioned [of "VLLMEngine lib (engine rc)"]
  by (simp add: select_engine_def compose_of_def generate_def)

theorem vllm_service_ignores_models_witness:
  "provider (engine vllm_config) = ''vllm'' \<and>
   generate sample_deps (vllm_config\<lparr>models := [\<lparr>name = ''mistralai/Mistral-7B-v0.1''\<rparr>]\<rparr>) =
     generate sample_deps vllm_config \<and>
   select_engine sample_deps vllm_config =
     Inr (''vllm'', sample_service\<lparr>command := Some [''0.9'']\<rparr>)"
proof -
  have h: "provider (engine vllm_config) = ''vllm''"
    by (simp add: vllm_config_def)
  have v: "VLLMEngine sample_deps (engine vllm_config) = sample_service\<lparr>command := Some [''0.9'']\<rparr>"
    by (simp add: sample_deps_def vllm_config_def)
  have m: "vllm_config\<lparr>models := models vllm_config\<rparr> = vllm_config"
    by simp
  show ?thesis
    using h v m
      vllm_service_ignores_models [OF h, of sample_deps "[\<lparr>name = ''mistralai/Mistral-7B-v0.1''\<rparr>]"]
      vllm_service_ignores_models [OF h, of sample_deps "models vllm_config"]
    by simp
qed

lemma generate_unsupported:
  "provider (engine rc) \<noteq> ''ollama'' \<Longrightarrow> provider (engine rc) \<noteq> ''vllm'' \<Longrightarrow>
   generate lib rc = Inl (ValueError (''Unsupported provider: '' @ provider (engine rc)))"
  by (simp add: generate_def compose_of_def select_engine_def)

text \<open>
  C3. For a provider that is neither \<open>ollama\<close> nor \<open>vllm\<close>, the generator raises its
  unsupported-provider \<open>ValueError\<close>; it is a pure function, so nothing is written. A
  manager that holds this configuration raises from \<open>generate_deployment\<close> with the
  world, and so the file system, exactly as before: the generator's error when the
  attribute \<open>run_config\<close> is set, \<open>AttributeError\<close> when it is not.
\<close>

theorem unsupported_provider_raises_before_write:
  assumes "provider (engine rc) \<noteq> ''ollama''" and "provider (engine rc) \<noteq> ''vllm''"
  shows "generate lib rc = Inl (ValueError (''Unsupported provider: '' @ provider (engine rc))) \<and>
         (\<forall>m. run_config_attr m = Some rc \<longrightarrow>
            generate_deployment lib ev m w output_path =
              (Inl (ValueError (''Unsupported provider: '' @ provider (engine rc))),
               m\<lparr>compose_file := output_path\<rparr>, w)) \<and>
         (\<forall>m. run_config_attr m = None \<longrightarrow>
            generate_deployment lib ev m w output_path =
              (Inl (AttributeError ''run_config''), m\<lparr>compose_file := output_path\<rparr>, w))"
  using generate_unsupported [OF assms, of lib]
  by (simp add: generate_deployment_def)

theorem unsupported_provider_raises_before_write_witness:
  "provider (engine unknown_config) \<noteq> ''ollama'' \<and> provider (engine unknown_config) \<noteq> ''vllm'' \<and>
   generate sample_deps unknown_config = Inl (ValueError ''Unsupported provider: tgi'') \<and>
   files (snd (snd (generate_deployment sample_deps failing_env
            ((RuntimeManager_init unknown_config)\<lparr>run_config_attr := Some unknown_config\<rparr>)
            empty_world ''out.yml''))) ''out.yml'' = None"
proof -
  have h1: "provider (engine unknown_config) \<noteq> ''ollama''"
    and h2: "provider (engine unknown_config) \<noteq> ''vllm''"
    by (simp_all add: unknown_config_def)
  show ?thesis
    using h1 h2 unsupported_provider_raises_before_write
      [OF h1 h2, of sample_deps failing_env empty_world "''out.yml''"]
    by (simp add: unknown_config_def empty_world_def RuntimeManager_init_def)
qed

section \<open>The lifecycle manager\<close>

text \<open>
  C1. The claim is that \<open>generate_deployment\<close> invokes the generator, writes the manifest
  and completes without error for every supported provider. On a manager as \<open>__init__\<close>
  leaves it, it does not: for every configuration, reading \<open>self.run_config\<close> raises
  \<open>AttributeError\<close> after the output path has been recorded, the generator is not
  invoked and the world is unchanged.
\<close>

theorem generate_deployment_attribute_error:
  "generate_deployment lib ev (RuntimeManager_init cfg) w output_path =
     (Inl (AttributeError ''run_config''),
      (RuntimeManager_init cfg)\<lparr>compose_file := output_path\<rparr>, w)"
  by (simp add: generate_deployment_def RuntimeManager_init_def)

text \<open>
  C9. \<open>generate_deployment\<close> records the output path as the manager's compose file before
  it invokes the generator: whatever the outcome, the recorded path is the new output
  path, and when an exception is raised the manager is the old one with the new path and
  the world is untouched.
\<close>

theorem generate_deployment_records_path_first:
  "compose_file (fst (snd (generate_deployment lib ev m w output_path))) = output_path \<and>
   (\<forall>e. fst (generate_deployment lib ev m w output_path) = Inl e \<longrightarrow>
      snd (generate_deployment lib ev m w output_path) = (m\<lparr>compose_file := output_path\<rparr>, w))"
  by (auto simp: generate_deployment_def Let_def split: option.splits sum.splits)

theorem generate_deployment_records_path_first_witness:
  "fst (generate_deployment sample_deps failing_env
          ((RuntimeManager_init unknown_config)\<lparr>run_config_attr := Some unknown_config\<rparr>)
          empty_world ''out.yml'') = Inl (ValueError ''Unsupported provider: tgi'') \<and>
   compose_file ((RuntimeManager_init unknown_config)\<lparr>run_config_attr := Some unknown_config\<rparr>)
     = ''docker-compose.yml'' \<and>
   compose_file (fst (snd (generate_deployment sample_deps failing_env
          ((RuntimeManager_init unknown_config)\<lparr>run_config_attr := Some unknown_config\<rparr>)
          empty_world ''out.yml''))) = ''out.yml''"
  using generate_deployment_records_path_first
    [of sample_deps failing_env
        "(RuntimeManager_init unknown_config)\<lparr>run_config_attr := Some unknown_config\<rparr>"
        empty_world "''out.yml''"]
  by (simp add: generate_deployment_def generate_def compose_of_def select_engine_def
        RuntimeManager_init_def unknown_config_def)

subsection \<open>Starting the environment\<close>

lemma pulls_append: "pulls (xs @ ys) = pulls xs @ pulls ys"
  by (simp add: pulls_def)

lemma pulls_simps:
  "pulls [] = []"
  "pulls (Log lv msg # tr) = pulls tr"
  "pulls (HttpPost url model r # tr) = (model, r) # pulls tr"
  "pulls (ProcRun cmd pr # tr) = pulls tr"
  "pulls (HttpGet url gr # tr) = pulls tr"
  "pulls (Sleep n # tr) = pulls tr"
  by (simp_all add: pulls_def)

text \<open>
  C6 (as amended). When no file exists at the manager's recorded compose path (for a
  manager on which \<open>generate_deployment\<close> was never called: \<open>docker-compose.yml\<close>),
  \<open>start_environment\<close> raises \<open>FileNotFoundError\<close>, which is not the \<open>RuntimeError\<close> of
  a failed start, and leaves the world as it was: no subprocess is run. The claim as
  stated, for every manager on which \<open>generate_deployment\<close> has not been called, fails
  when a file already exists at the default path: the counterexample starts the
  containers and returns normally.
\<close>

theorem start_without_manifest_fails_fast:
  assumes "compose_file m \<notin> dom (files w)"
  shows "start_environment ev m w =
           (Inl (FileNotFoundError (''Compose file '' @ compose_file m
                   @ '' not found. Run generate_deployment() first.'')), w) \<and>
         FileNotFoundError (''Compose file '' @ compose_file m
                   @ '' not found. Run generate_deployment() first.'')
           \<noteq> RuntimeError ''Docker Compose failed to start.'' \<and>
         filter is_proc_run (trace (snd (start_environment ev m w))) = filter is_proc_run (trace w)"
  using assms by (simp add: start_environment_def)

theorem start_without_manifest_fails_fast_witness:
  "compose_file (RuntimeManager_init sample_config) \<notin> dom (files empty_world) \<and>
   start_environment healthy_env (RuntimeManager_init sample_config) empty_world =
     (Inl (FileNotFoundError
        ''Compose file docker-compose.yml not found. Run generate_deployment() first.''),
      empty_world)"
proof -
  have h: "compose_file (RuntimeManager_init sample_config) \<notin> dom (files empty_world)"
    by (simp add: empty_world_def)
  show ?thesis
    using h start_without_manifest_fails_fast [OF h, of healthy_env]
    by (simp add: RuntimeManager_init_def)
qed

theorem start_without_generate_counterexample:
  "run_config_attr (RuntimeManager_init sample_config) = None \<and>
   fst (start_environment healthy_env (RuntimeManager_init sample_config) stale_world) = Inr () \<and>
   filter is_proc_run
     (trace (snd (start_environment healthy_env (RuntimeManager_init sample_config) stale_world))) =
     [ProcRun [''docker-compose'', ''-f'', ''docker-compose.yml'', ''up'', ''-d''] (Exited 0)]"
  by (simp add: start_environment_def RuntimeManager_init_def stale_world_def healthy_env_def
        sample_config_def wait_for_health_def poll.simps execute_models_def
        pull_ollama_model_def post_error_def raise_for_status_def logger_def emit_def Let_def)

text \<open>
  C7. When the manifest exists and \<open>docker-compose up -d\<close> exits with a non-zero code,
  \<open>start_environment\<close> raises \<open>RuntimeError\<close>; the trace gains the start message, the
  subprocess run and the error message only, so no readiness probe and no model pull
  is made.
\<close>

theorem nonzero_exit_skips_health_and_models:
  assumes "compose_file m \<in> dom (files w)"
    and "proc_run ev (trace w @ [Log Info ''Starting Docker containers...''])
           [''docker-compose'', ''-f'', compose_file m, ''up'', ''-d''] = Exited rc"
    and "rc \<noteq> 0"
  shows "start_environment ev m w =
           (Inl (RuntimeError ''Docker Compose failed to start.''),
            w\<lparr>trace := trace w @
               [Log Info ''Starting Docker containers...'',
                ProcRun [''docker-compose'', ''-f'', compose_file m, ''up'', ''-d''] (Exited rc),
                Log Error (''Failed to start environment: '' @ str_exc ev
                  (CalledProcessError
                     [''docker-compose'', ''-f'', compose_file m, ''up'', ''-d''] rc))]\<rparr>) \<and>
         filter is_probe (trace (snd (start_environment ev m w))) = filter is_probe (trace w) \<and>
         pulls (trace (snd (start_environment ev m w))) = pulls (trace w)"
proof -
  have run: "start_environment ev m w =
           (Inl (RuntimeError ''Docker Compose failed to start.''),
            w\<lparr>trace := trace w @
               [Log Info ''Starting Docker containers...'',
                ProcRun [''docker-compose'', ''-f'', compose_file m, ''up'', ''-d''] (Exited rc),
                Log Error (''Failed to start environment: '' @ str_exc ev
                  (CalledProcessError
                     [''docker-compose'', ''-f'', compose_file m, ''up'', ''-d''] rc))]\<rparr>)"
    using assms by (simp add: start_environment_def Let_def logger_def emit_def)
  show ?thesis
    unfolding run by (simp add: pulls_append pulls_simps)
qed

theorem nonzero_exit_skips_health_and_models_witness:
  "compose_file (RuntimeManager_init sample_config) \<in> dom (files stale_world) \<and>
   proc_run failing_env (trace stale_world @ [Log Info ''Starting Docker containers...''])
     [''docker-compose'', ''-f'', compose_file (RuntimeManager_init sample_config), ''up'', ''-d'']
     = Exited 1 \<and>
   fst (start_environment failing_env (RuntimeManager_init sample_config) stale_world) =
     Inl (RuntimeError ''Docker Compose failed to start.'') \<and>
   filter is_probe (trace (snd (start_environment failing_env (RuntimeManager_init sample_config)
                                  stale_world))) = [] \<and>
   pulls (trace (snd (start_environment failing_env (RuntimeManager_init sample_config)
                        stale_world))) = []"
proof -
  let ?m = "RuntimeManager_init sample_config"
  have h1: "compose_file ?m \<in> dom (files stale_world)"
    by (simp add: RuntimeManager_init_def stale_world_def)
  have h2: "proc_run failing_env (trace stale_world @ [Log Info ''Starting Docker containers...''])
     [''docker-compose'', ''-f'', compose_file ?m, ''up'', ''-d''] = Exited 1"
    by (simp add: failing_env_def)
  have h3: "(1::int) \<noteq> 0" by simp
  have e: "filter is_probe (trace stale_world) = []" "pulls (trace stale_world) = []"
    by (simp_all add: stale_world_def pulls_simps)
  show ?thesis
    using h1 h2 nonzero_exit_skips_health_and_models [OF h1 h2 h3] e
    by (simp add: pulls_append pulls_simps)
qed

subsection \<open>The readiness poll\<close>






subsection \<open>Loading the models\<close>

lemma pull_ollama_model_pulls:
  "pull_ollama_model ev model w = (r, w') \<Longrightarrow>
   \<exists>pr. pulls (trace w') = pulls (trace w) @ [(model, pr)] \<and>
        (case post_error pr of
           None \<Rightarrow> r = Inr ()
         | Some x \<Rightarrow> r = Inl (RequestException x))"
  by (auto simp: pull_ollama_model_def Let_def logger_def emit_def pulls_append pulls_simps
           split: option.splits)

lemma execute_loop_ollama:
  "execute_loop ev ''ollama'' ms w = (r, w') \<Longrightarrow>
   \<exists>ps. pulls (trace w') = pulls (trace w) @ ps \<and>
        map fst ps = take (length ps) (map name ms) \<and>
        (\<forall>q\<in>set (butlast ps). post_error (snd q) = None) \<and>
        (case r of
           Inr u \<Rightarrow> length ps = length ms \<and> (\<forall>q\<in>set ps. post_error (snd q) = None)
         | Inl e \<Rightarrow> ps \<noteq> [] \<and>
                    (\<exists>x. post_error (snd (last ps)) = Some x \<and> e = RequestException x))"
proof (induction ms arbitrary: w r w')
  case Nil
  then show ?case by auto
next
  case (Cons model rest)
  let ?w1 = "logger Info (''Initializing model: '' @ name model @ ''...'') w"
  have tr1: "pulls (trace ?w1) = pulls (trace w)"
    by (simp add: logger_def emit_def pulls_append pulls_simps)
  obtain r1 w2 where p: "pull_ollama_model ev (name model) ?w1 = (r1, w2)"
    by (cases "pull_ollama_model ev (name model) ?w1") auto
  from pull_ollama_model_pulls [OF p] obtain pr where
    pr: "pulls (trace w2) = pulls (trace w) @ [(name model, pr)]"
    and out: "case post_error pr of None \<Rightarrow> r1 = Inr () | Some x \<Rightarrow> r1 = Inl (RequestException x)"
    unfolding tr1 by blast
  show ?case
  proof (cases "post_error pr")
    case (Some x)
    with out have r1: "r1 = Inl (RequestException x)" by simp
    from Cons.prems p r1 have "r = Inl (RequestException x)" and "w' = w2"
      by (simp_all add: Let_def)
    with pr Some show ?thesis
      by (intro exI [of _ "[(name model, pr)]"]) simp
  next
    case None
    with out have r1: "r1 = Inr ()" by simp
    from Cons.prems p r1 have rest: "execute_loop ev ''ollama'' rest w2 = (r, w')"
      by (simp add: Let_def)
    from Cons.IH [OF rest] obtain ps where
      a: "pulls (trace w') = pulls (trace w2) @ ps"
      and b: "map fst ps = take (length ps) (map name rest)"
      and c: "\<forall>q\<in>set (butlast ps). post_error (snd q) = None"
      and d: "case r of
           Inr u \<Rightarrow> length ps = length rest \<and> (\<forall>q\<in>set ps. post_error (snd q) = None)
         | Inl e \<Rightarrow> ps \<noteq> [] \<and>
                    (\<exists>x. post_error (snd (last ps)) = Some x \<and> e = RequestException x)"
      by blast
    show ?thesis
    proof (intro exI [of _ "(name model, pr) # ps"] conjI)
      show "pulls (trace w') = pulls (trace w) @ (name model, pr) # ps"
        using a pr by simp
      show "map fst ((name model, pr) # ps) =
              take (length ((name model, pr) # ps)) (map name (model # rest))"
        using b by simp
      show "\<forall>q\<in>set (butlast ((name model, pr) # ps)). post_error (snd q) = None"
        using c None by (cases ps) auto
      show "case r of
           Inr u \<Rightarrow> length ((name model, pr) # ps) = length (model # rest) \<and>
                    (\<forall>q\<in>set ((name model, pr) # ps). post_error (snd q) = None)
         | Inl e \<Rightarrow> (name model, pr) # ps \<noteq> [] \<and>
                    (\<exists>x. post_error (snd (last ((name model, pr) # ps))) = Some x \<and>
                         e = RequestException x)"
        using d None by (cases r) auto
    qed
  qed
qed

lemma failing_env_run:
  "execute_models failing_env (RuntimeManager_init sample_config) empty_world =
     (Inl (RequestException (HTTPError 404)),
      empty_world\<lparr>trace :=
        [Log Info ''Initializing model: llama3...'',
         Log Info (''Requesting Ollama to pull '' @ [CHR 0x27] @ ''llama3'' @ [CHR 0x27]
                   @ '' (this may take a while)...''),
         HttpPost ''http://localhost:11434/api/pull'' ''llama3'' (Response 200),
         Log Info ''Successfully pulled llama3.'',
         Log Info ''Initializing model: phi3...'',
         Log Info (''Requesting Ollama to pull '' @ [CHR 0x27] @ ''phi3'' @ [CHR 0x27]
                   @ '' (this may take a while)...''),
         HttpPost ''http://localhost:11434/api/pull'' ''phi3'' (Response 404),
         Log Error ''Failed to pull model phi3: '']\<rparr>)"
  by (simp add: execute_models_def RuntimeManager_init_def sample_config_def empty_world_def
        pull_ollama_model_def logger_def emit_def failing_env_def post_error_def
        raise_for_status_def Let_def)

text \<open>
  C5. For the \<open>ollama\<close> provider, the pulls that \<open>execute_models\<close> requests are those
  of a prefix of the configured models, one each, in configuration order; every pull
  but the last succeeded. On a normal return the prefix is the whole list and every pull
  succeeded; on an exception the last pull is the one that failed, and its exception is
  the one raised.
\<close>

theorem ollama_pulls_in_order_until_failure:
  assumes "provider (engine (config m)) = ''ollama''"
    and "execute_models ev m w = (r, w')"
  shows "\<exists>ps. pulls (trace w') = pulls (trace w) @ ps \<and>
           map fst ps = take (length ps) (map name (models (config m))) \<and>
           (\<forall>q\<in>set (butlast ps). post_error (snd q) = None) \<and>
           (case r of
              Inr u \<Rightarrow> length ps = length (models (config m)) \<and>
                       (\<forall>q\<in>set ps. post_error (snd q) = None)
            | Inl e \<Rightarrow> ps \<noteq> [] \<and>
                       (\<exists>x. post_error (snd (last ps)) = Some x \<and> e = RequestException x))"
  using assms execute_loop_ollama [of ev "models (config m)" w r w']
  by (simp add: execute_models_def)

theorem ollama_pulls_in_order_until_failure_witness:
  "provider (engine (config (RuntimeManager_init sample_config))) = ''ollama'' \<and>
   fst (execute_models failing_env (RuntimeManager_init sample_config) empty_world) =
     Inl (RequestException (HTTPError 404)) \<and>
   pulls (trace (snd (execute_models failing_env (RuntimeManager_init sample_config) empty_world))) =
     [(''llama3'', Response 200), (''phi3'', Response 404)] \<and>
   (\<exists>ps. pulls (trace (snd (execute_models failing_env (RuntimeManager_init sample_config)
                               empty_world))) = pulls (trace empty_world) @ ps \<and>
         map fst ps = take (length ps) (map name (models (config (RuntimeManager_init sample_config)))) \<and>
         (\<forall>q\<in>set (butlast ps). post_error (snd q) = None) \<and>
         ps \<noteq> [] \<and>
         (\<exists>x. post_error (snd (last ps)) = Some x \<and>
              RequestException (HTTPError 404) = RequestException x))"
proof -
  let ?m = "RuntimeManager_init sample_config"
  let ?run = "execute_models failing_env ?m empty_world"
  have h1: "provider (engine (config ?m)) = ''ollama''"
    by (simp add: RuntimeManager_init_def sample_config_def)
  have h2: "?run = (Inl (RequestException (HTTPError 404)), snd ?run)"
    by (simp add: failing_env_run)
  have tr: "pulls (trace (snd ?run)) = [(''llama3'', Response 200), (''phi3'', Response 404)]"
    by (simp add: failing_env_run pulls_simps)
  have f: "fst ?run = Inl (RequestException (HTTPError 404))"
    by (simp add: failing_env_run)
  from ollama_pulls_in_order_until_failure [OF h1 h2]
  have ex: "\<exists>ps. pulls (trace (snd ?run)) = pulls (trace empty_world) @ ps \<and>
         map fst ps = take (length ps) (map name (models (config ?m))) \<and>
         (\<forall>q\<in>set (butlast ps). post_error (snd q) = None) \<and>
         ps \<noteq> [] \<and>
         (\<exists>x. post_error (snd (last ps)) = Some x \<and>
              RequestException (HTTPError 404) = RequestException x)"
    by simp
  show ?thesis
    by (intro conjI h1 f tr ex)
qed

lemma execute_loop_unknown:
  "p \<noteq> ''ollama'' \<Longrightarrow> p \<noteq> ''vllm'' \<Longrightarrow>
   execute_loop ev p ms w =
     (Inr (), w\<lparr>trace := trace w @ concat (map (\<lambda>model.
        [Log Info (''Initializing model: '' @ name model @ ''...''),
         Log Warning (''No specific initialization logic for provider: '' @ p)]) ms)\<rparr>)"
  by (induction ms arbitrary: w) (simp_all add: logger_def emit_def)

text \<open>
  C10. For a provider that is neither \<open>ollama\<close> nor \<open>vllm\<close>, \<open>execute_models\<close>
  returns normally for every list of models; its only effects are the two log lines per
  model, the initialisation message and the warning, so no pull and no probe is made;
  and the generator rejects the same configuration.
\<close>

theorem execute_models_unknown_provider:
  assumes "provider (engine (config m)) \<noteq> ''ollama''"
    and "provider (engine (config m)) \<noteq> ''vllm''"
  shows "execute_models ev m w =
           (Inr (), w\<lparr>trace := trace w @ concat (map (\<lambda>model.
              [Log Info (''Initializing model: '' @ name model @ ''...''),
               Log Warning (''No specific initialization logic for provider: ''
                            @ provider (engine (config m)))]) (models (config m)))\<rparr>) \<and>
         pulls (trace (snd (execute_models ev m w))) = pulls (trace w) \<and>
         filter is_probe (trace (snd (execute_models ev m w))) = filter is_probe (trace w) \<and>
         generate lib (config m) =
           Inl (ValueError (''Unsupported provider: '' @ provider (engine (config m))))"
proof -
  let ?evs = "concat (map (\<lambda>model.
              [Log Info (''Initializing model: '' @ name model @ ''...''),
               Log Warning (''No specific initialization logic for provider: ''
                            @ provider (engine (config m)))]) (models (config m)))"
  have run: "execute_models ev m w = (Inr (), w\<lparr>trace := trace w @ ?evs\<rparr>)"
    unfolding execute_models_def by (rule execute_loop_unknown [OF assms])
  have p: "pulls (concat (map (\<lambda>model. [Log Info (f model), Log Warning msg]) ms)) = []" for f msg ms
    by (induction ms) (simp_all add: pulls_simps)
  have g: "filter is_probe (concat (map (\<lambda>model. [Log Info (f model), Log Warning msg]) ms)) = []"
    for f msg ms
    by (induction ms) simp_all
  have gen: "generate lib (config m) =
           Inl (ValueError (''Unsupported provider: '' @ provider (engine (config m))))"
    using assms by (simp add: generate_def compose_of_def select_engine_def)
  show ?thesis
    unfolding run using gen by (simp add: pulls_append p g)
qed

theorem execute_models_unknown_provider_witness:
  "provider (engine (config (RuntimeManager_init unknown_config))) \<noteq> ''ollama'' \<and>
   provider (engine (config (RuntimeManager_init unknown_config))) \<noteq> ''vllm'' \<and>
   execute_models failing_env (RuntimeManager_init unknown_config) empty_world =
     (Inr (), empty_world\<lparr>trace :=
        [Log Info ''Initializing model: llama3...'',
         Log Warning ''No specific initialization logic for provider: tgi'',
         Log Info ''Initializing model: phi3...'',
         Log Warning ''No specific initialization logic for provider: tgi'']\<rparr>)"
proof -
  have h1: "provider (engine (config (RuntimeManager_init unknown_config))) \<noteq> ''ollama''"
    and h2: "provider (engine (config (RuntimeManager_init unknown_config))) \<noteq> ''vllm''"
    by (simp_all add: RuntimeManager_init_def unknown_config_def)
  show ?thesis
    using h1 h2 execute_models_unknown_provider [OF h1 h2, of failing_env empty_world sample_deps]
    by (simp add: RuntimeManager_init_def unknown_config_def empty_world_def)
qed

end
